theory Spec2Isabelle
  imports Main
begin

section \<open>The platform as seen by the wrappers\<close>

text \<open>
  The headers under \<^verbatim>\<open>include/mpi\<close> wrap the C interface of an MPI implementation.
  The wrappers are embedded as HOL functions; the C library itself is not part of the
  repository, so every answer it gives is a parameter of the model (the record
  \<open>platform\<close> below, written \<open>pf\<close>), and every call a wrapper makes is written to a
  trace.
\<close>

text \<open>
  Modelled from the spec: \<^verbatim>\<open>mpi_stub_out.h\<close> (the MPI declarations) is not part of the
  sources. The spec fixes "zero = success"; the handle constants are pairwise distinct
  opaque identifiers, so each raw handle type is a datatype whose first constructors are
  the predefined constants the wrappers mention and whose last constructor stands for
  any identifier created at run time.
\<close>

definition MPI_SUCCESS :: int where
  "MPI_SUCCESS = 0"

definition EXIT_FAILURE :: int where
  "EXIT_FAILURE = 1"

definition INT_MAX :: int where
  "INT_MAX = 2147483647"

definition INT_MIN :: int where
  "INT_MIN = - 2147483648"

datatype MPI_Comm = MPI_COMM_NULL | MPI_COMM_WORLD | MPI_COMM_SELF | MPI_Comm_id nat

datatype MPI_Request = MPI_REQUEST_NULL | MPI_Request_id nat

datatype MPI_Op =
    MPI_OP_NULL
  | MPI_MAX | MPI_MIN | MPI_SUM | MPI_PROD
  | MPI_LAND | MPI_BAND | MPI_LOR | MPI_BOR | MPI_LXOR | MPI_BXOR
  | MPI_MAXLOC | MPI_MINLOC
  | MPI_Op_id nat

datatype MPI_Datatype =
    MPI_CXX_BOOL | MPI_CHAR
  | MPI_INT8_T | MPI_INT16_T | MPI_INT32_T | MPI_INT64_T
  | MPI_UINT8_T | MPI_UINT16_T | MPI_UINT32_T | MPI_UINT64_T
  | MPI_FLOAT | MPI_DOUBLE

record MPI_Status =
  MPI_SOURCE :: int
  MPI_TAG :: int
  MPI_ERROR :: int

text \<open>A C pointer to the first element of an array: null, or an address.\<close>

datatype ptr = nullptr | Addr nat

subsection \<open>Exceptions and the ways a call can end\<close>

text \<open>
  \<^verbatim>\<open>mpi::Exception\<close> (exception.hpp) holds the error code and the text. The member
  \<^verbatim>\<open>what_\<close>, here \<open>what_m\<close>, is the character vector including its terminating
  zero.
\<close>

datatype Exception = Exception (errorcode: int) (what_m: string)

datatype exn =
    mpi_Exception Exception
  | std_out_of_range string
  | std_logic_error string

text \<open>
  In the C++ standard library \<^verbatim>\<open>std::out_of_range\<close> is derived from
  \<^verbatim>\<open>std::logic_error\<close>; \<^verbatim>\<open>mpi::Exception\<close> is derived from
  \<^verbatim>\<open>std::exception\<close> only. A handler for \<^verbatim>\<open>std::logic_error\<close> catches exactly
  the following.
\<close>

fun is_std_logic_error :: "exn \<Rightarrow> bool" where
  "is_std_logic_error (mpi_Exception _) = False"
| "is_std_logic_error (std_out_of_range _) = True"
| "is_std_logic_error (std_logic_error _) = True"

text \<open>
  A call either returns, or it stops in one of these ways: a C++ exception leaves it,
  \<^verbatim>\<open>MPI_Abort\<close> takes the communicator down, \<^verbatim>\<open>std::exit\<close> ends the process, an
  \<^verbatim>\<open>assert\<close> fails, \<^verbatim>\<open>std::terminate\<close> is called (an exception leaving a
  destructor), or the behaviour is undefined (access through an empty
  \<^verbatim>\<open>std::optional\<close>, signed overflow).
\<close>

datatype stop =
    Thrown exn
  | Aborted MPI_Comm int
  | Exited int
  | AssertFailed
  | Terminated
  | UndefinedBehaviour

datatype 'a result = Returned 'a | Stopped stop

subsection \<open>The trace\<close>

datatype stream = cout | cerr

datatype out_item = Str string | Num int

datatype event =
    Print stream "out_item list"
  | MPI_Error_string int
  | MPI_Abort MPI_Comm int
  | MPI_Comm_rank MPI_Comm
  | MPI_Comm_size MPI_Comm
  | MPI_Request_free MPI_Request
  | MPI_Op_free MPI_Op
  | MPI_Gather ptr int MPI_Datatype ptr int MPI_Datatype int MPI_Comm
  | MPI_Reduce ptr ptr int MPI_Datatype MPI_Op int MPI_Comm
  | MPI_Waitall int "MPI_Request list"
  | MPI_Waitsome int "MPI_Request list"

type_synonym world = "event list"

type_synonym 'a io = "world \<Rightarrow> 'a result \<times> world"

definition return :: "'a \<Rightarrow> 'a io" where
  "return a w = (Returned a, w)"

definition bind :: "'a io \<Rightarrow> ('a \<Rightarrow> 'b io) \<Rightarrow> 'b io" where
  "bind m f w =
     (case m w of
        (Returned a, w') \<Rightarrow> f a w'
      | (Stopped s, w') \<Rightarrow> (Stopped s, w'))"

definition emit :: "event \<Rightarrow> unit io" where
  "emit e w = (Returned (), w @ [e])"

definition stop_with :: "stop \<Rightarrow> 'a io" where
  "stop_with s w = (Stopped s, w)"

subsection \<open>What the platform answers\<close>

text \<open>
  \<open>sizeof_size_t\<close> is \<^verbatim>\<open>sizeof(std::size_t)\<close> in bytes and \<open>MPI_UNDEFINED\<close> a constant
  of the MPI implementation. Each other field gives the library's reply to one C
  function: the return code first, then what the function writes through its
  out-parameters.
\<close>

record platform =
  sizeof_size_t :: nat
  MPI_UNDEFINED :: int
  on_Error_string :: "int \<Rightarrow> int \<times> string"
  on_Comm_rank :: "MPI_Comm \<Rightarrow> int \<times> int"
  on_Comm_size :: "MPI_Comm \<Rightarrow> int \<times> int"
  on_Request_free :: "MPI_Request \<Rightarrow> int \<times> MPI_Request"
  on_Op_free :: "MPI_Op \<Rightarrow> int \<times> MPI_Op"
  on_Gather :: "ptr \<Rightarrow> int \<Rightarrow> MPI_Datatype \<Rightarrow> ptr \<Rightarrow> int \<Rightarrow> MPI_Datatype \<Rightarrow> int \<Rightarrow> MPI_Comm \<Rightarrow> int"
  on_Reduce :: "ptr \<Rightarrow> ptr \<Rightarrow> int \<Rightarrow> MPI_Datatype \<Rightarrow> MPI_Op \<Rightarrow> int \<Rightarrow> MPI_Comm \<Rightarrow> int"
  on_Waitall :: "MPI_Request list \<Rightarrow> MPI_Status list \<Rightarrow> int \<times> MPI_Request list \<times> MPI_Status list"
  on_Waitsome :: "MPI_Request list \<Rightarrow> int list \<Rightarrow> MPI_Status list option
                   \<Rightarrow> int \<times> int \<times> MPI_Request list \<times> int list \<times> MPI_Status list option"

section \<open>exception.hpp\<close>

text \<open>
  The constructor of \<^verbatim>\<open>Exception\<close> asks \<^verbatim>\<open>MPI_Error_string\<close> for the text of the code.
  The library writes the text and its length; the vector is cut to that length and a
  zero is pushed, so \<open>what_m\<close> is the text followed by the zero character. If the
  lookup itself fails the constructor calls \<^verbatim>\<open>MPI_Abort(MPI_COMM_WORLD, EXIT_FAILURE)\<close>, which
  does not return.
\<close>

definition Exception_ctor :: "platform \<Rightarrow> int \<Rightarrow> Exception io" where
  "Exception_ctor pf code =
     bind (emit (MPI_Error_string code)) (\<lambda>_.
       case on_Error_string pf code of
         (rc, text) \<Rightarrow>
           if MPI_SUCCESS \<noteq> rc then
             bind (emit (MPI_Abort MPI_COMM_WORLD EXIT_FAILURE)) (\<lambda>_.
               stop_with (Aborted MPI_COMM_WORLD EXIT_FAILURE))
           else return (Exception code (text @ [CHR 0x00])))"

definition what :: "Exception \<Rightarrow> string" where
  "what e = takeWhile (\<lambda>c. c \<noteq> CHR 0x00) (what_m e)"

definition check_result :: "platform \<Rightarrow> int \<Rightarrow> unit io" where
  "check_result pf code =
     (if MPI_SUCCESS \<noteq> code then
        bind (Exception_ctor pf code) (\<lambda>e. stop_with (Thrown (mpi_Exception e)))
      else return ())"

section \<open>handle.hpp\<close>

text \<open>
  A traits class gives the null sentinel, the destroy procedure and the predicate of
  protected handles. \<^verbatim>\<open>destroy\<close> takes the handle by reference: it returns the
  handle's new value. The two wrappers are generic in the traits; they are also generic
  in the state \<open>'w\<close> the destroy procedure acts on.
\<close>

record ('h, 'w) HandleTraits =
  null :: 'h
  destroy :: "'h \<Rightarrow> 'w \<Rightarrow> unit result \<times> 'h \<times> 'w"
  is_system_handle :: "'h \<Rightarrow> bool"

text \<open>The member \<^verbatim>\<open>handle_\<close> is the only field of either wrapper.\<close>

datatype 'h Handle = Handle 'h

datatype 'h UniqueHandle = UniqueHandle 'h

fun Handle_get_raw :: "'h Handle \<Rightarrow> 'h" where
  "Handle_get_raw (Handle h) = h"

definition Handle_is_null :: "('h, 'w) HandleTraits \<Rightarrow> 'h Handle \<Rightarrow> bool" where
  "Handle_is_null T this = (Handle_get_raw this = null T)"

definition Handle_operator_bool :: "('h, 'w) HandleTraits \<Rightarrow> 'h Handle \<Rightarrow> bool" where
  "Handle_operator_bool T this = (\<not> Handle_is_null T this)"

fun UniqueHandle_get_raw :: "'h UniqueHandle \<Rightarrow> 'h" where
  "UniqueHandle_get_raw (UniqueHandle h) = h"

definition UniqueHandle_is_null :: "('h, 'w) HandleTraits \<Rightarrow> 'h UniqueHandle \<Rightarrow> bool" where
  "UniqueHandle_is_null T this = (UniqueHandle_get_raw this = null T)"

definition UniqueHandle_operator_bool :: "('h, 'w) HandleTraits \<Rightarrow> 'h UniqueHandle \<Rightarrow> bool" where
  "UniqueHandle_operator_bool T this = (\<not> UniqueHandle_is_null T this)"

text \<open>
  \<^verbatim>\<open>into_raw\<close> swaps the null sentinel into the wrapper and returns what was there:
  the result is the old identifier and the wrapper afterwards.
\<close>

definition UniqueHandle_into_raw ::
  "('h, 'w) HandleTraits \<Rightarrow> 'h UniqueHandle \<Rightarrow> 'h \<times> 'h UniqueHandle" where
  "UniqueHandle_into_raw T this =
     (let handle = null T
      in (UniqueHandle_get_raw this, UniqueHandle handle))"

text \<open>
  \<^verbatim>\<open>reset\<close>: the first assertion, then destroy under the presence test with the
  assertion that destroy left the sentinel, then the closing assertion. Assertions are
  modelled as compiled in.
\<close>

definition UniqueHandle_reset ::
  "('h, 'w) HandleTraits \<Rightarrow> 'h UniqueHandle \<Rightarrow> 'w \<Rightarrow> unit result \<times> 'h UniqueHandle \<times> 'w" where
  "UniqueHandle_reset T this w =
     (if is_system_handle T (UniqueHandle_get_raw this) then (Stopped AssertFailed, this, w)
      else if UniqueHandle_operator_bool T this then
        (case destroy T (UniqueHandle_get_raw this) w of
           (Stopped s, h', w') \<Rightarrow> (Stopped s, UniqueHandle h', w')
         | (Returned _, h', w') \<Rightarrow>
             if h' = null T then
               (if UniqueHandle_is_null T (UniqueHandle h') then (Returned (), UniqueHandle h', w')
                else (Stopped AssertFailed, UniqueHandle h', w'))
             else (Stopped AssertFailed, UniqueHandle h', w'))
      else if UniqueHandle_is_null T this then (Returned (), this, w)
      else (Stopped AssertFailed, this, w))"

text \<open>
  The destructor runs \<^verbatim>\<open>reset\<close>. A destructor is \<^verbatim>\<open>noexcept\<close>: an exception
  leaving \<^verbatim>\<open>reset\<close> there calls \<^verbatim>\<open>std::terminate\<close>.
\<close>

definition UniqueHandle_destructor ::
  "('h, 'w) HandleTraits \<Rightarrow> 'h UniqueHandle \<Rightarrow> 'w \<Rightarrow> unit result \<times> 'h UniqueHandle \<times> 'w" where
  "UniqueHandle_destructor T this w =
     (case UniqueHandle_reset T this w of
        (Stopped (Thrown e), this', w') \<Rightarrow> (Stopped Terminated, this', w')
      | r \<Rightarrow> r)"

text \<open>
  Move construction swaps the source's identifier with the fresh (null) member; the
  result is the new wrapper and the source afterwards.
\<close>

definition UniqueHandle_move_ctor ::
  "('h, 'w) HandleTraits \<Rightarrow> 'h UniqueHandle \<Rightarrow> 'h UniqueHandle \<times> 'h UniqueHandle" where
  "UniqueHandle_move_ctor T other = (UniqueHandle (UniqueHandle_get_raw other), UniqueHandle (null T))"

text \<open>
  Move assignment: \<^verbatim>\<open>reset\<close>, then swap the two identifiers. The result carries the
  target and the source afterwards.
\<close>

definition UniqueHandle_move_assign ::
  "('h, 'w) HandleTraits \<Rightarrow> 'h UniqueHandle \<Rightarrow> 'h UniqueHandle \<Rightarrow> 'w
     \<Rightarrow> unit result \<times> 'h UniqueHandle \<times> 'h UniqueHandle \<times> 'w" where
  "UniqueHandle_move_assign T this other w =
     (case UniqueHandle_reset T this w of
        (Stopped s, this', w') \<Rightarrow> (Stopped s, this', other, w')
      | (Returned _, this', w') \<Rightarrow>
          (Returned (), UniqueHandle (UniqueHandle_get_raw other),
           UniqueHandle (UniqueHandle_get_raw this'), w'))"

section \<open>deref.hpp\<close>

text \<open>
  \<^verbatim>\<open>Deref<From, To>::deref\<close> is \<^verbatim>\<open>To::from_handle(this->get_raw())\<close>. The two class
  parameters enter through \<open>get_raw\<close> of \<open>From\<close> and \<open>from_handle\<close> of \<open>To\<close>. The
  non-const overload could change the object it is called on, so the object afterwards
  is part of the result.
\<close>

definition deref :: "('from \<Rightarrow> 'h) \<Rightarrow> ('h \<Rightarrow> 'to) \<Rightarrow> 'from \<Rightarrow> 'to \<times> 'from" where
  "deref get_raw from_handle this = (from_handle (get_raw this), this)"

text \<open>\<^verbatim>\<open>Comm::from_handle\<close>, \<^verbatim>\<open>Request::from_handle\<close>: the reference wrapper of a raw identifier.\<close>

definition Comm_from_handle :: "MPI_Comm \<Rightarrow> MPI_Comm Handle" where
  "Comm_from_handle handle = Handle handle"

definition UniqueComm_from_handle :: "MPI_Comm \<Rightarrow> MPI_Comm UniqueHandle" where
  "UniqueComm_from_handle handle = UniqueHandle handle"

definition Request_from_handle :: "MPI_Request \<Rightarrow> MPI_Request Handle" where
  "Request_from_handle request = Handle request"

definition UniqueRequest_from_handle :: "MPI_Request \<Rightarrow> MPI_Request UniqueHandle" where
  "UniqueRequest_from_handle request = UniqueHandle request"

text \<open>The instances of \<^verbatim>\<open>deref\<close> for the communicator and request wrappers.\<close>

definition Comm_deref :: "MPI_Comm Handle \<Rightarrow> MPI_Comm Handle \<times> MPI_Comm Handle" where
  "Comm_deref = deref Handle_get_raw Comm_from_handle"

definition UniqueComm_deref :: "MPI_Comm UniqueHandle \<Rightarrow> MPI_Comm Handle \<times> MPI_Comm UniqueHandle" where
  "UniqueComm_deref = deref UniqueHandle_get_raw Comm_from_handle"

definition UniqueRequest_deref ::
  "MPI_Request UniqueHandle \<Rightarrow> MPI_Request Handle \<times> MPI_Request UniqueHandle" where
  "UniqueRequest_deref = deref UniqueHandle_get_raw Request_from_handle"

section \<open>request.hpp\<close>

definition RequestHandleTraits_destroy ::
  "platform \<Rightarrow> MPI_Request \<Rightarrow> world \<Rightarrow> unit result \<times> MPI_Request \<times> world" where
  "RequestHandleTraits_destroy pf handle w =
     (case on_Request_free pf handle of
        (rc, handle') \<Rightarrow>
          (case bind (emit (MPI_Request_free handle)) (\<lambda>_. check_result pf rc) w of
             (r, w') \<Rightarrow> (r, handle', w')))"

definition RequestHandleTraits :: "platform \<Rightarrow> (MPI_Request, world) HandleTraits" where
  "RequestHandleTraits pf =
     \<lparr> null = MPI_REQUEST_NULL,
       destroy = RequestHandleTraits_destroy pf,
       is_system_handle = (\<lambda>_. False) \<rparr>"

text \<open>\<^verbatim>\<open>UniqueRequest::check_null\<close>: the diagnostic on \<^verbatim>\<open>std::cout\<close>, then \<^verbatim>\<open>std::exit\<close>.\<close>

definition UniqueRequest_check_null :: "platform \<Rightarrow> MPI_Request UniqueHandle \<Rightarrow> unit io" where
  "UniqueRequest_check_null pf this =
     (if \<not> UniqueHandle_is_null (RequestHandleTraits pf) this then
        bind (emit (Print cout [Str ''Requests must be completed before they're dropped!'']))
          (\<lambda>_. stop_with (Exited EXIT_FAILURE))
      else return ())"

text \<open>
  The destructor of \<^verbatim>\<open>UniqueRequest\<close> runs \<^verbatim>\<open>check_null\<close>, then the destructor of
  its base \<^verbatim>\<open>UniqueHandle<RequestHandleTraits>\<close>.
\<close>

definition UniqueRequest_destructor ::
  "platform \<Rightarrow> MPI_Request UniqueHandle \<Rightarrow> world
     \<Rightarrow> unit result \<times> MPI_Request UniqueHandle \<times> world" where
  "UniqueRequest_destructor pf this w =
     (case UniqueRequest_check_null pf this w of
        (Stopped s, w') \<Rightarrow> (Stopped s, this, w')
      | (Returned _, w') \<Rightarrow> UniqueHandle_destructor (RequestHandleTraits pf) this w')"

text \<open>Move assignment of \<^verbatim>\<open>UniqueRequest\<close>: \<^verbatim>\<open>check_null\<close>, then the base's move assignment.\<close>

definition UniqueRequest_move_assign ::
  "platform \<Rightarrow> MPI_Request UniqueHandle \<Rightarrow> MPI_Request UniqueHandle \<Rightarrow> world
     \<Rightarrow> unit result \<times> MPI_Request UniqueHandle \<times> MPI_Request UniqueHandle \<times> world" where
  "UniqueRequest_move_assign pf this other w =
     (case UniqueRequest_check_null pf this w of
        (Stopped s, w') \<Rightarrow> (Stopped s, this, other, w')
      | (Returned _, w') \<Rightarrow> UniqueHandle_move_assign (RequestHandleTraits pf) this other w')"

section \<open>datatype.hpp\<close>

text \<open>
  The value types the header names. \<open>T_other\<close> stands for any type without a
  specialisation. \<^verbatim>\<open>std::size_t\<close> is listed on its own: the two partial
  specialisations select it by \<^verbatim>\<open>sizeof(std::size_t)\<close>, which is the first argument
  \<open>sz\<close> of \<open>DatatypeTraits\<close> below.
\<close>

datatype cxx_type =
    T_bool | T_char
  | T_int8_t | T_int16_t | T_int32_t | T_int64_t
  | T_uint8_t | T_uint16_t | T_uint32_t | T_uint64_t
  | T_size_t
  | T_float | T_double
  | T_other string

text \<open>
  One record per specialisation; \<open>mpi_datatype\<close> is absent in the primary template,
  which declares no such member.
\<close>

record datatype_traits =
  is_datatype :: bool
  mpi_datatype :: "MPI_Datatype option"
  is_c_integer :: bool
  is_floating_point :: bool
  is_logical :: bool

definition primary_template :: datatype_traits where
  "primary_template =
     \<lparr> is_datatype = False, mpi_datatype = None,
       is_c_integer = False, is_floating_point = False, is_logical = False \<rparr>"

definition specialisation :: "MPI_Datatype \<Rightarrow> bool \<Rightarrow> bool \<Rightarrow> bool \<Rightarrow> datatype_traits" where
  "specialisation tag c_integer floating_point logical =
     \<lparr> is_datatype = True, mpi_datatype = Some tag,
       is_c_integer = c_integer, is_floating_point = floating_point, is_logical = logical \<rparr>"

fun DatatypeTraits :: "nat \<Rightarrow> cxx_type \<Rightarrow> datatype_traits" where
  "DatatypeTraits sz T_bool = specialisation MPI_CXX_BOOL False False True"
| "DatatypeTraits sz T_char = specialisation MPI_CHAR False False False"
| "DatatypeTraits sz T_int8_t = specialisation MPI_INT8_T True False False"
| "DatatypeTraits sz T_int16_t = specialisation MPI_INT16_T True False False"
| "DatatypeTraits sz T_int32_t = specialisation MPI_INT32_T True False False"
| "DatatypeTraits sz T_int64_t = specialisation MPI_INT64_T True False False"
| "DatatypeTraits sz T_uint8_t = specialisation MPI_UINT8_T True False False"
| "DatatypeTraits sz T_uint16_t = specialisation MPI_UINT16_T True False False"
| "DatatypeTraits sz T_uint32_t = specialisation MPI_UINT32_T True False False"
| "DatatypeTraits sz T_uint64_t = specialisation MPI_UINT64_T True False False"
| "DatatypeTraits sz T_size_t =
     (if sz = 4 then specialisation MPI_UINT32_T True False False
      else if sz = 8 then specialisation MPI_UINT64_T True False False
      else primary_template)"
| "DatatypeTraits sz T_float = specialisation MPI_FLOAT False True False"
| "DatatypeTraits sz T_double = specialisation MPI_DOUBLE False True False"
| "DatatypeTraits sz (T_other name) = primary_template"

definition is_datatype_v :: "nat \<Rightarrow> cxx_type \<Rightarrow> bool" where
  "is_datatype_v sz T = is_datatype (DatatypeTraits sz T)"

section \<open>op.hpp\<close>

definition OpHandleTraits_destroy ::
  "platform \<Rightarrow> MPI_Op \<Rightarrow> world \<Rightarrow> unit result \<times> MPI_Op \<times> world" where
  "OpHandleTraits_destroy pf handle w =
     (case on_Op_free pf handle of
        (rc, handle') \<Rightarrow>
          (case bind (emit (MPI_Op_free handle)) (\<lambda>_. check_result pf rc) w of
             (r, w') \<Rightarrow> (r, handle', w')))"

definition OpHandleTraits_is_system_handle :: "MPI_Op \<Rightarrow> bool" where
  "OpHandleTraits_is_system_handle handle =
     (handle = MPI_MAX \<or> handle = MPI_MIN \<or> handle = MPI_SUM \<or> handle = MPI_PROD \<or>
      handle = MPI_LAND \<or> handle = MPI_BAND \<or> handle = MPI_LOR \<or>
      handle = MPI_BOR \<or> handle = MPI_LXOR \<or> handle = MPI_BXOR \<or>
      handle = MPI_MAXLOC \<or> handle = MPI_MINLOC)"

definition OpHandleTraits :: "platform \<Rightarrow> (MPI_Op, world) HandleTraits" where
  "OpHandleTraits pf =
     \<lparr> null = MPI_OP_NULL,
       destroy = OpHandleTraits_destroy pf,
       is_system_handle = OpHandleTraits_is_system_handle \<rparr>"

text \<open>
  An operator-traits class: the applicability predicate on value types and the
  user-defined flag. \<^verbatim>\<open>is_applicable<T>\<close> exists only where \<^verbatim>\<open>is_datatype_v<T>\<close>
  holds (the \<^verbatim>\<open>enable_if\<close> in its template head); elsewhere the name does not
  resolve, which is \<open>None\<close>.
\<close>

record OpTraits =
  is_applicable :: "nat \<Rightarrow> cxx_type \<Rightarrow> bool option"
  is_user_defined :: bool

definition comparison_op_traits :: OpTraits where
  "comparison_op_traits =
     \<lparr> is_applicable = (\<lambda>sz T.
         if is_datatype_v sz T then
           Some (is_c_integer (DatatypeTraits sz T) \<or>
                 is_floating_point (DatatypeTraits sz T))
         else None),
       is_user_defined = False \<rparr>"

definition accumulate_op_traits :: OpTraits where
  "accumulate_op_traits =
     \<lparr> is_applicable = (\<lambda>sz T.
         if is_datatype_v sz T then
           Some (is_c_integer (DatatypeTraits sz T) \<or>
                 is_floating_point (DatatypeTraits sz T))
         else None),
       is_user_defined = False \<rparr>"

definition logical_op_traits :: OpTraits where
  "logical_op_traits =
     \<lparr> is_applicable = (\<lambda>sz T.
         if is_datatype_v sz T then
           Some (is_c_integer (DatatypeTraits sz T) \<or>
                 is_logical (DatatypeTraits sz T))
         else None),
       is_user_defined = False \<rparr>"

definition bitwise_op_traits :: OpTraits where
  "bitwise_op_traits =
     \<lparr> is_applicable = (\<lambda>sz T.
         if is_datatype_v sz T then
           Some (is_c_integer (DatatypeTraits sz T))
         else None),
       is_user_defined = False \<rparr>"

text \<open>\<^verbatim>\<open>Op<OpTraits>\<close> is a \<^verbatim>\<open>UniqueHandle<OpHandleTraits>\<close>.\<close>

definition Op_is_applicable :: "OpTraits \<Rightarrow> nat \<Rightarrow> cxx_type \<Rightarrow> bool option" where
  "Op_is_applicable OT = is_applicable OT"

definition Op_op :: "MPI_Op UniqueHandle \<Rightarrow> MPI_Op" where
  "Op_op this = UniqueHandle_get_raw this"

text \<open>
  \<^verbatim>\<open>from_system_handle\<close> exists only for traits that are not user-defined
  (\<^verbatim>\<open>enable_if\<close> on its return type).
\<close>

definition from_system_handle :: "OpTraits \<Rightarrow> MPI_Op \<Rightarrow> MPI_Op UniqueHandle option" where
  "from_system_handle OT op = (if \<not> is_user_defined OT then Some (UniqueHandle op) else None)"

text \<open>
  The destructor of \<^verbatim>\<open>Op\<close>: its own body first (\<^verbatim>\<open>into_raw\<close> when the traits are not
  user-defined, the returned identifier dropped), then the destructor of the base
  \<^verbatim>\<open>UniqueHandle<OpHandleTraits>\<close>.
\<close>

definition Op_destructor ::
  "OpTraits \<Rightarrow> platform \<Rightarrow> MPI_Op UniqueHandle \<Rightarrow> world
     \<Rightarrow> unit result \<times> MPI_Op UniqueHandle \<times> world" where
  "Op_destructor OT pf this w =
     (let this' = (if \<not> is_user_defined OT
                   then snd (UniqueHandle_into_raw (OpHandleTraits pf) this)
                   else this)
      in UniqueHandle_destructor (OpHandleTraits pf) this' w)"

text \<open>The system-provided operators.\<close>

definition mpi_max :: "MPI_Op UniqueHandle option" where
  "mpi_max = from_system_handle comparison_op_traits MPI_MAX"

definition mpi_min :: "MPI_Op UniqueHandle option" where
  "mpi_min = from_system_handle comparison_op_traits MPI_MIN"

definition mpi_sum :: "MPI_Op UniqueHandle option" where
  "mpi_sum = from_system_handle accumulate_op_traits MPI_SUM"

definition mpi_product :: "MPI_Op UniqueHandle option" where
  "mpi_product = from_system_handle accumulate_op_traits MPI_PROD"

definition logical_and :: "MPI_Op UniqueHandle option" where
  "logical_and = from_system_handle logical_op_traits MPI_LAND"

definition logical_or :: "MPI_Op UniqueHandle option" where
  "logical_or = from_system_handle logical_op_traits MPI_LOR"

definition logical_xor :: "MPI_Op UniqueHandle option" where
  "logical_xor = from_system_handle logical_op_traits MPI_LXOR"

definition bitwise_and :: "MPI_Op UniqueHandle option" where
  "bitwise_and = from_system_handle bitwise_op_traits MPI_BAND"

definition bitwise_or :: "MPI_Op UniqueHandle option" where
  "bitwise_or = from_system_handle bitwise_op_traits MPI_BOR"

definition bitwise_xor :: "MPI_Op UniqueHandle option" where
  "bitwise_xor = from_system_handle bitwise_op_traits MPI_BXOR"

section \<open>buffer.hpp\<close>

text \<open>
  A \<^verbatim>\<open>std::span<T>\<close> is a pointer and an element count. \<^verbatim>\<open>Buffer<T>\<close> holds a span;
  its element type enters only through \<^verbatim>\<open>DatatypeTraits<T>::mpi_datatype()\<close>, which is
  kept beside the span.
\<close>

record span =
  span_data :: ptr
  span_size :: nat

record Buffer =
  Buffer_datatype :: MPI_Datatype
  Buffer_data_m :: span

definition MakeBuffer :: "MPI_Datatype \<Rightarrow> span \<Rightarrow> Buffer" where
  "MakeBuffer dt data = \<lparr> Buffer_datatype = dt, Buffer_data_m = data \<rparr>"

definition Buffer_data :: "Buffer \<Rightarrow> ptr" where
  "Buffer_data b = span_data (Buffer_data_m b)"

definition Buffer_size :: "Buffer \<Rightarrow> nat" where
  "Buffer_size b = span_size (Buffer_data_m b)"

definition Buffer_size_int :: "Buffer \<Rightarrow> int io" where
  "Buffer_size_int b =
     (if int (Buffer_size b) > INT_MAX then
        stop_with (Thrown (std_out_of_range ''Buffer::size_int: Tried to send too large buffer.''))
      else return (int (Buffer_size b)))"

record DynBuffer =
  data_m :: ptr
  count_m :: int
  datatype_m :: MPI_Datatype

text \<open>The converting constructor \<^verbatim>\<open>DynBuffer(Buf const &)\<close>.\<close>

definition DynBuffer_ctor :: "Buffer \<Rightarrow> DynBuffer io" where
  "DynBuffer_ctor buffer =
     bind (Buffer_size_int buffer) (\<lambda>n.
       return \<lparr> data_m = Buffer_data buffer, count_m = n, datatype_m = Buffer_datatype buffer \<rparr>)"

definition DynBuffer_size_int :: "DynBuffer \<Rightarrow> int" where
  "DynBuffer_size_int b = count_m b"

text \<open>\<^verbatim>\<open>DynBuffer::size\<close> converts the \<^verbatim>\<open>int\<close> count to \<^verbatim>\<open>size_t\<close>.\<close>

definition DynBuffer_size :: "platform \<Rightarrow> DynBuffer \<Rightarrow> nat" where
  "DynBuffer_size pf b = nat (count_m b mod 2 ^ (8 * sizeof_size_t pf))"

section \<open>comm.hpp\<close>

text \<open>
  The member functions of \<^verbatim>\<open>CommImpl\<close>. The object enters only through \<^verbatim>\<open>comm()\<close>,
  its raw identifier, which is the argument \<open>c\<close>.
\<close>

definition CommImpl_rank :: "platform \<Rightarrow> MPI_Comm \<Rightarrow> int io" where
  "CommImpl_rank pf c =
     bind (emit (MPI_Comm_rank c)) (\<lambda>_.
       case on_Comm_rank pf c of
         (rc, rank') \<Rightarrow> bind (check_result pf rc) (\<lambda>_. return rank'))"

definition CommImpl_size :: "platform \<Rightarrow> MPI_Comm \<Rightarrow> int io" where
  "CommImpl_size pf c =
     bind (emit (MPI_Comm_size c)) (\<lambda>_.
       case on_Comm_size pf c of
         (rc, size') \<Rightarrow> bind (check_result pf rc) (\<lambda>_. return size'))"

text \<open>
  \<^verbatim>\<open>abort\<close>: \<^verbatim>\<open>MPI_Abort\<close> on the communicator. The call does not come back (the
  \<^verbatim>\<open>std::exit\<close> after it is there, as the source says, only because \<^verbatim>\<open>MPI_Abort\<close> is
  not declared \<^verbatim>\<open>noreturn\<close>).
\<close>

definition CommImpl_abort :: "MPI_Comm \<Rightarrow> int \<Rightarrow> 'a io" where
  "CommImpl_abort c code =
     bind (emit (MPI_Abort c code)) (\<lambda>_. stop_with (Aborted c code))"

text \<open>The product of two \<^verbatim>\<open>int\<close> values; signed overflow is undefined behaviour.\<close>

definition int_times :: "int \<Rightarrow> int \<Rightarrow> int io" where
  "int_times a b =
     (if INT_MIN \<le> a * b \<and> a * b \<le> INT_MAX then return (a * b)
      else stop_with UndefinedBehaviour)"

text \<open>
  \<^verbatim>\<open>gather(rank_t, DynBuffer, std::optional<DynBuffer>)\<close>. The source passes the two
  buffers themselves where \<^verbatim>\<open>MPI_Gather\<close> takes addresses; the model passes their data
  pointers. \<^verbatim>\<open>recv->datatype()\<close> among the arguments reads through the optional
  without a test, which is undefined when the optional is empty.
\<close>

definition CommImpl_gather ::
  "platform \<Rightarrow> MPI_Comm \<Rightarrow> int \<Rightarrow> DynBuffer \<Rightarrow> DynBuffer option \<Rightarrow> unit io" where
  "CommImpl_gather pf c root send recv =
     bind (CommImpl_rank pf c) (\<lambda>r.
     bind (if root = r then
             bind (if recv = None then
                     bind (CommImpl_rank pf c) (\<lambda>r1.
                     bind (emit (Print cerr
                             [Num r1,
                              Str '': The root rank must supply a receive buffer to Comm::gather'']))
                       (\<lambda>_. CommImpl_abort c EXIT_FAILURE))
                   else return ()) (\<lambda>_.
             case recv of
               None \<Rightarrow> return ()
             | Some rb \<Rightarrow>
                 bind (CommImpl_size pf c) (\<lambda>n.
                 bind (int_times (DynBuffer_size_int send) n) (\<lambda>needed.
                   if DynBuffer_size_int rb < needed then
                     bind (CommImpl_rank pf c) (\<lambda>r2.
                     bind (CommImpl_size pf c) (\<lambda>n2.
                     bind (emit (Print cerr
                             [Num r2, Str '': recv (size = '', Num (DynBuffer_size_int rb),
                              Str '') is not large enough to receive '', Num n2,
                              Str '' buffers of size '', Num (int (DynBuffer_size pf send))]))
                       (\<lambda>_. CommImpl_abort c EXIT_FAILURE)))
                   else return ())))
           else return ()) (\<lambda>_.
     case recv of
       None \<Rightarrow> stop_with UndefinedBehaviour
     | Some rb \<Rightarrow>
         bind (emit (MPI_Gather (data_m send) (DynBuffer_size_int send) (datatype_m send)
                       (data_m rb) (DynBuffer_size_int send) (datatype_m rb) root c))
           (\<lambda>_. check_result pf
                  (on_Gather pf (data_m send) (DynBuffer_size_int send) (datatype_m send)
                     (data_m rb) (DynBuffer_size_int send) (datatype_m rb) root c))))"

text \<open>
  \<^verbatim>\<open>gather(rank_t, std::span<T const>, std::optional<std::span<T>>)\<close>: the receive
  buffer is converted first, then the send buffer; \<open>dt\<close> is
  \<^verbatim>\<open>DatatypeTraits<T>::mpi_datatype()\<close>.
\<close>

definition CommImpl_gather_span ::
  "platform \<Rightarrow> MPI_Comm \<Rightarrow> MPI_Datatype \<Rightarrow> int \<Rightarrow> span \<Rightarrow> span option \<Rightarrow> unit io" where
  "CommImpl_gather_span pf c dt root send recv =
     bind (case recv of
             None \<Rightarrow> return None
           | Some r \<Rightarrow> bind (DynBuffer_ctor (MakeBuffer dt r)) (\<lambda>b. return (Some b)))
       (\<lambda>recv_buf.
     bind (DynBuffer_ctor (MakeBuffer dt send)) (\<lambda>send_buf.
       CommImpl_gather pf c root send_buf recv_buf))"

text \<open>\<^verbatim>\<open>gather_into_root(rank_t, std::span<T const>, std::span<T>)\<close>.\<close>

definition CommImpl_gather_into_root ::
  "platform \<Rightarrow> MPI_Comm \<Rightarrow> MPI_Datatype \<Rightarrow> int \<Rightarrow> span \<Rightarrow> span \<Rightarrow> unit io" where
  "CommImpl_gather_into_root pf c dt root send recv =
     bind (CommImpl_rank pf c) (\<lambda>r.
     bind (if root \<noteq> r then
             bind (CommImpl_rank pf c) (\<lambda>r1.
             bind (emit (Print cerr
                     [Num r1,
                      Str '': Comm::gather_into_root called from a rank other than the root ('',
                      Num root,
                      Str '') - gether_into_root should only be used on root rank, or you should call gather with the receive buffer.'']))
               (\<lambda>_. CommImpl_abort c EXIT_FAILURE))
           else return ()) (\<lambda>_.
       CommImpl_gather_span pf c dt root send (Some recv)))"

text \<open>
  \<^verbatim>\<open>reduce(op, root, send, send_count, recv, recv_count)\<close>. The static assertion on
  \<^verbatim>\<open>is_applicable<T>\<close> is decided at compile time; \<open>dt\<close> is
  \<^verbatim>\<open>DatatypeTraits<T>::mpi_datatype()\<close>. Inside the test \<^verbatim>\<open>recv_count < send_count\<close> the
  source tests \<^verbatim>\<open>!recv\<close> once more before it prints and aborts.
\<close>

definition CommImpl_reduce ::
  "platform \<Rightarrow> MPI_Comm \<Rightarrow> MPI_Datatype \<Rightarrow> MPI_Op UniqueHandle \<Rightarrow> int
     \<Rightarrow> ptr \<Rightarrow> nat \<Rightarrow> ptr \<Rightarrow> nat \<Rightarrow> unit io" where
  "CommImpl_reduce pf c dt op root send send_count recv recv_count =
     bind (CommImpl_rank pf c) (\<lambda>r.
     bind (if root = r then
             bind (if recv = nullptr then
                     bind (CommImpl_rank pf c) (\<lambda>r1.
                     bind (emit (Print cerr
                             [Num r1,
                              Str '': The root rank must supply a receive buffer to Comm::gather'']))
                       (\<lambda>_. CommImpl_abort c EXIT_FAILURE))
                   else return ()) (\<lambda>_.
               if recv_count < send_count then
                 (if recv = nullptr then
                    bind (CommImpl_rank pf c) (\<lambda>r2.
                    bind (CommImpl_size pf c) (\<lambda>n.
                    bind (emit (Print cerr
                            [Num r2, Str '': recv_count ('', Num (int recv_count),
                             Str '') is not large enough to receive '', Num n,
                             Str '' buffers of size '', Num (int send_count)]))
                      (\<lambda>_. CommImpl_abort c EXIT_FAILURE)))
                  else return ())
               else return ())
           else return ()) (\<lambda>_.
       if int send_count > INT_MAX then
         stop_with (Thrown (std_out_of_range ''send array is too large''))
       else
         bind (emit (MPI_Reduce send recv (int send_count) dt (Op_op op) root c))
           (\<lambda>_. check_result pf (on_Reduce pf send recv (int send_count) dt (Op_op op) root c))))"

text \<open>\<^verbatim>\<open>reduce_into_root(op, root, send, send_count, recv, recv_count)\<close>.\<close>

definition CommImpl_reduce_into_root ::
  "platform \<Rightarrow> MPI_Comm \<Rightarrow> MPI_Datatype \<Rightarrow> MPI_Op UniqueHandle \<Rightarrow> int
     \<Rightarrow> ptr \<Rightarrow> nat \<Rightarrow> ptr \<Rightarrow> nat \<Rightarrow> unit io" where
  "CommImpl_reduce_into_root pf c dt op root send send_count recv recv_count =
     bind (CommImpl_rank pf c) (\<lambda>r.
     bind (if root \<noteq> r then
             bind (CommImpl_rank pf c) (\<lambda>r1.
             bind (emit (Print cerr
                     [Num r1,
                      Str '': Comm::reduce_into_root called from a rank other than the root ('',
                      Num root,
                      Str '') - reduce_into_root should only be used on root rank, or you should call reduce with the receive buffer.'']))
               (\<lambda>_. CommImpl_abort c EXIT_FAILURE))
           else return ()) (\<lambda>_.
       CommImpl_reduce pf c dt op root send send_count recv recv_count))"

section \<open>mpi.hpp: multiple completions\<close>

text \<open>
  A \<^verbatim>\<open>std::span<UniqueRequest>\<close> is handed to the library as an array of
  \<^verbatim>\<open>MPI_Request\<close>, a span of \<^verbatim>\<open>Status\<close> as an array of \<^verbatim>\<open>MPI_Status\<close>; both are lists
  here. Each function returns, beside its result, the arrays it was given as they are
  afterwards.
\<close>

definition wait_all ::
  "platform \<Rightarrow> MPI_Request list \<Rightarrow> MPI_Status list \<Rightarrow> world
     \<Rightarrow> unit result \<times> MPI_Request list \<times> MPI_Status list \<times> world" where
  "wait_all pf requests statuses w =
     (if int (length requests) > INT_MAX then
        (Stopped (Thrown (std_out_of_range ''requests array is too large'')),
         requests, statuses, w)
      else if length statuses < length requests then
        (Stopped (Thrown (std_logic_error
           ''statuses array must be large enough to hold a status for each request'')),
         requests, statuses, w)
      else
        (case on_Waitall pf requests statuses of
           (rc, requests', statuses') \<Rightarrow>
             (case bind (emit (MPI_Waitall (int (length requests)) requests))
                     (\<lambda>_. check_result pf rc) w of
                (r, w') \<Rightarrow> (r, requests', statuses', w'))))"

definition wait_some ::
  "platform \<Rightarrow> MPI_Request list \<Rightarrow> int list \<Rightarrow> MPI_Status list option \<Rightarrow> world
     \<Rightarrow> int result \<times> MPI_Request list \<times> int list \<times> MPI_Status list option \<times> world" where
  "wait_some pf requests indices statuses w =
     (if int (length requests) > INT_MAX then
        (Stopped (Thrown (std_out_of_range ''requests array is too large'')),
         requests, indices, statuses, w)
      else if length indices < length requests then
        (Stopped (Thrown (std_logic_error
           ''indices array must be large enough to hold an index for each request'')),
         requests, indices, statuses, w)
      else if (case statuses of None \<Rightarrow> False | Some st \<Rightarrow> length st < length requests) then
        (Stopped (Thrown (std_logic_error
           ''statuses array must be large enough to hold a status for each request'')),
         requests, indices, statuses, w)
      else
        (case on_Waitsome pf requests indices statuses of
           (rc, num_completed, requests', indices', statuses') \<Rightarrow>
             (case bind (emit (MPI_Waitsome (int (length requests)) requests)) (\<lambda>_.
                   bind (check_result pf rc) (\<lambda>_.
                     if num_completed = MPI_UNDEFINED pf then
                       stop_with (Thrown (std_logic_error
                         ''mpi::wait_some should only be called when there are still completed requests''))
                     else return num_completed)) w of
                (r, w') \<Rightarrow> (r, requests', indices', statuses', w'))))"

text \<open>
  \<^verbatim>\<open>std::vector<int>::resize\<close>: cut, or filled up with zeros. Running out of memory
  is not modelled.
\<close>

definition vector_resize :: "int list \<Rightarrow> nat \<Rightarrow> int list" where
  "vector_resize v n = take n v @ replicate (n - length v) 0"

text \<open>
  \<^verbatim>\<open>wait_some_into\<close>: the vector is grown by one slot per request, \<^verbatim>\<open>wait_some\<close>
  writes into the new slots (the subspan from the old size on), and the vector is cut to
  the old size plus the count returned. That sum is formed in \<^verbatim>\<open>size_t\<close>, so the
  \<^verbatim>\<open>int\<close> count is converted and the sum wraps.
\<close>

definition wait_some_into ::
  "platform \<Rightarrow> MPI_Request list \<Rightarrow> int list \<Rightarrow> world
     \<Rightarrow> unit result \<times> MPI_Request list \<times> int list \<times> world" where
  "wait_some_into pf requests indices w =
     (let original_indices_size = length indices;
          grown = vector_resize indices (original_indices_size + length requests)
      in case wait_some pf requests (drop original_indices_size grown) None w of
           (Stopped s, requests', sub', _, w') \<Rightarrow>
             (Stopped s, requests', take original_indices_size grown @ sub', w')
         | (Returned num_completed, requests', sub', _, w') \<Rightarrow>
             (Returned (), requests',
              vector_resize (take original_indices_size grown @ sub')
                (nat ((int original_indices_size + num_completed) mod 2 ^ (8 * sizeof_size_t pf))),
              w'))"

section \<open>Platforms for closed examples\<close>

text \<open>
  An eight-byte \<^verbatim>\<open>size_t\<close> and a library on which every call succeeds: the caller is
  rank 0 of 2, freeing a handle nulls it, error texts are empty, waiting completes
  nothing and leaves the arrays as they are.
\<close>

definition quiet_platform :: platform where
  "quiet_platform =
     \<lparr> sizeof_size_t = 8,
       MPI_UNDEFINED = - 32766,
       on_Error_string = (\<lambda>code. (0, [])),
       on_Comm_rank = (\<lambda>c. (0, 0)),
       on_Comm_size = (\<lambda>c. (0, 2)),
       on_Request_free = (\<lambda>h. (0, MPI_REQUEST_NULL)),
       on_Op_free = (\<lambda>h. (0, MPI_OP_NULL)),
       on_Gather = (\<lambda>sendbuf sendcount sendtype recvbuf recvcount recvtype root comm. 0),
       on_Reduce = (\<lambda>sendbuf recvbuf count dt op root comm. 0),
       on_Waitall = (\<lambda>requests statuses. (0, requests, statuses)),
       on_Waitsome = (\<lambda>requests indices statuses. (0, 0, requests, indices, statuses)) \<rparr>"

text \<open>The same library seen from rank 1.\<close>

definition rank1_platform :: platform where
  "rank1_platform = quiet_platform \<lparr> on_Comm_rank := (\<lambda>c. (0, 1)) \<rparr>"

text \<open>A library whose \<^verbatim>\<open>MPI_Error_string\<close> fails for every code.\<close>

definition lookup_fails_platform :: platform where
  "lookup_fails_platform = quiet_platform \<lparr> on_Error_string := (\<lambda>code. (1, [])) \<rparr>"

text \<open>
  A library whose \<^verbatim>\<open>MPI_Waitsome\<close> completes the request at index 1: it reports one
  completion, writes the index 1 into the first slot and nulls that request.
\<close>

definition one_completes_platform :: platform where
  "one_completes_platform =
     quiet_platform \<lparr> on_Waitsome :=
       (\<lambda>requests indices statuses.
          (0, 1, requests[1 := MPI_REQUEST_NULL], indices[0 := 1], statuses)) \<rparr>"

text \<open>"The call throws an \<^verbatim>\<open>Exception\<close> \<open>e\<close> with \<^verbatim>\<open>e.errorcode() == code\<close>", as a test on a result.\<close>

fun throws_Exception_with :: "int \<Rightarrow> unit result \<Rightarrow> bool" where
  "throws_Exception_with code (Stopped (Thrown (mpi_Exception e))) = (errorcode e = code)"
| "throws_Exception_with code _ = False"

section \<open>Properties\<close>

subsection \<open>Sequencing\<close>

lemma bind_return [simp]: "bind (return a) f = f a"
  by (rule ext) (simp add: bind_def return_def)

lemma bind_emit [simp]: "bind (emit e) f w = f () (w @ [e])"
  by (simp add: bind_def emit_def)

lemma bind_stop_with [simp]: "bind (stop_with s) f = stop_with s"
  by (rule ext) (simp add: bind_def stop_with_def)

lemma bind_assoc [simp]: "bind (bind m f) g = bind m (\<lambda>x. bind (f x) g)"
  by (rule ext) (simp add: bind_def split: prod.split result.split)

lemma return_apply: "return a w = (Returned a, w)"
  by (simp add: return_def)

lemma stop_with_apply: "stop_with s w = (Stopped s, w)"
  by (simp add: stop_with_def)

subsection \<open>The result gate\<close>

lemma check_result_success [simp]: "check_result pf MPI_SUCCESS = return ()"
  by (simp add: check_result_def)

lemma Exception_ctor_found:
  "on_Error_string pf code = (MPI_SUCCESS, text) \<Longrightarrow>
   Exception_ctor pf code w = (Returned (Exception code (text @ [CHR 0x00])), w @ [MPI_Error_string code])"
  by (simp add: Exception_ctor_def return_apply)

lemma Exception_ctor_lookup_failed:
  "fst (on_Error_string pf code) \<noteq> MPI_SUCCESS \<Longrightarrow>
   Exception_ctor pf code w =
     (Stopped (Aborted MPI_COMM_WORLD EXIT_FAILURE),
      w @ [MPI_Error_string code, MPI_Abort MPI_COMM_WORLD EXIT_FAILURE])"
  by (cases "on_Error_string pf code") (auto simp add: Exception_ctor_def stop_with_apply)

subsection \<open>Root-only collectives\<close>

lemma CommImpl_rank_ok:
  "on_Comm_rank pf c = (MPI_SUCCESS, r) \<Longrightarrow>
   bind (CommImpl_rank pf c) f w = f r (w @ [MPI_Comm_rank c])"
  by (simp add: CommImpl_rank_def)

lemma CommImpl_size_ok:
  "on_Comm_size pf c = (MPI_SUCCESS, n) \<Longrightarrow>
   bind (CommImpl_size pf c) f w = f n (w @ [MPI_Comm_size c])"
  by (simp add: CommImpl_size_def)

lemma bind_CommImpl_abort [simp]: "bind (CommImpl_abort c code) f = CommImpl_abort c code"
  by (simp add: CommImpl_abort_def)

lemma CommImpl_abort_apply:
  "CommImpl_abort c code w = (Stopped (Aborted c code), w @ [MPI_Abort c code])"
  by (simp add: CommImpl_abort_def stop_with_apply)

lemma DynBuffer_ctor_fits:
  "int (span_size sp) \<le> INT_MAX \<Longrightarrow>
   bind (DynBuffer_ctor (MakeBuffer dt sp)) f =
     f \<lparr> data_m = span_data sp, count_m = int (span_size sp), datatype_m = dt \<rparr>"
  by (simp add: DynBuffer_ctor_def Buffer_size_int_def Buffer_size_def Buffer_data_def
        MakeBuffer_def)

text \<open>
  Called from a rank other than the root, both root-only collectives abort the
  communicator; so does \<^verbatim>\<open>gather_into_root\<close> at the root when the receive span holds
  fewer elements than send count times communicator size (the counts fitting \<^verbatim>\<open>int\<close>).
\<close>

lemma gather_into_root_off_root:
  assumes "on_Comm_rank pf c = (MPI_SUCCESS, r)" and "root \<noteq> r"
  shows "fst (CommImpl_gather_into_root pf c dt root send recv w) =
           Stopped (Aborted c EXIT_FAILURE)"
  using assms(2)
  by (simp add: CommImpl_gather_into_root_def CommImpl_rank_ok [OF assms(1)]
        CommImpl_abort_apply)

lemma reduce_into_root_off_root:
  assumes "on_Comm_rank pf c = (MPI_SUCCESS, r)" and "root \<noteq> r"
  shows "fst (CommImpl_reduce_into_root pf c dt op root send send_count recv recv_count w) =
           Stopped (Aborted c EXIT_FAILURE)"
  using assms(2)
  by (simp add: CommImpl_reduce_into_root_def CommImpl_rank_ok [OF assms(1)]
        CommImpl_abort_apply)

lemma gather_into_root_undersized:
  assumes "on_Comm_rank pf c = (MPI_SUCCESS, root)"
    and "on_Comm_size pf c = (MPI_SUCCESS, n)"
    and "int (span_size send) \<le> INT_MAX" and "int (span_size recv) \<le> INT_MAX"
    and "INT_MIN \<le> int (span_size send) * n" and "int (span_size send) * n \<le> INT_MAX"
    and "int (span_size recv) < int (span_size send) * n"
  shows "fst (CommImpl_gather_into_root pf c dt root send (recv) w) =
           Stopped (Aborted c EXIT_FAILURE)"
  using assms(5-7)
  by (simp add: CommImpl_gather_into_root_def CommImpl_gather_span_def CommImpl_gather_def
        CommImpl_rank_ok [OF assms(1)] CommImpl_size_ok [OF assms(2)]
        DynBuffer_ctor_fits [OF assms(3)] DynBuffer_ctor_fits [OF assms(4)]
        int_times_def DynBuffer_size_int_def CommImpl_abort_apply)

text \<open>
  \<^verbatim>\<open>reduce_into_root\<close> at the root with a receive array that is there but shorter
  than the send array: the size test of \<^verbatim>\<open>reduce\<close> is passed without an abort, and the
  call goes on to \<^verbatim>\<open>MPI_Reduce\<close>.
\<close>

lemma reduce_into_root_undersized:
  assumes "on_Comm_rank pf c = (MPI_SUCCESS, root)"
    and "recv \<noteq> nullptr" and "recv_count < send_count" and "int send_count \<le> INT_MAX"
  shows "CommImpl_reduce_into_root pf c dt op root send send_count recv recv_count w =
           check_result pf (on_Reduce pf send recv (int send_count) dt (Op_op op) root c)
             (w @ [MPI_Comm_rank c, MPI_Comm_rank c,
                   MPI_Reduce send recv (int send_count) dt (Op_op op) root c])"
  using assms(2-4)
  by (simp add: CommImpl_reduce_into_root_def CommImpl_reduce_def
        CommImpl_rank_ok [OF assms(1)])

text \<open>
  C1. The root-only collectives \<^verbatim>\<open>gather_into_root\<close> and \<^verbatim>\<open>reduce_into_root\<close> are to
  abort the whole communicator when called off the root or, at the root, with an
  undersized receive buffer (for reduce: \<^verbatim>\<open>recv_count < send_count\<close>). The reduce half of
  the buffer rule does not hold: rank 0 calling \<^verbatim>\<open>reduce_into_root\<close> with root 0, two
  elements to send and room for one returns normally after handing both arrays to
  \<^verbatim>\<open>MPI_Reduce\<close> with count 2; the trace has no \<^verbatim>\<open>MPI_Abort\<close>.
\<close>

theorem reduce_into_root_undersized_at_root:
  "CommImpl_reduce_into_root quiet_platform MPI_COMM_WORLD MPI_INT32_T (UniqueHandle MPI_SUM) 0
       (Addr 16) 2 (Addr 32) 1 [] =
     (Returned (),
      [MPI_Comm_rank MPI_COMM_WORLD, MPI_Comm_rank MPI_COMM_WORLD,
       MPI_Reduce (Addr 16) (Addr 32) 2 MPI_INT32_T MPI_SUM 0 MPI_COMM_WORLD])"
  using reduce_into_root_undersized
          [of quiet_platform MPI_COMM_WORLD 0 "Addr 32" 1 2 MPI_INT32_T "UniqueHandle MPI_SUM"
              "Addr 16" "[]"]
  by (simp add: quiet_platform_def MPI_SUCCESS_def INT_MAX_def Op_op_def check_result_def
        return_apply)

lemma gather_without_recv_off_root:
  assumes "on_Comm_rank pf c = (MPI_SUCCESS, r)" and "root \<noteq> r"
  shows "CommImpl_gather pf c root send None w =
           (Stopped UndefinedBehaviour, w @ [MPI_Comm_rank c])"
  using assms(2)
  by (simp add: CommImpl_gather_def CommImpl_rank_ok [OF assms(1)] stop_with_apply)

text \<open>
  C2. \<^verbatim>\<open>Comm::gather\<close> called without a receive buffer is never to read through the
  absent \<^verbatim>\<open>std::optional\<close>. It does: rank 1 calling \<^verbatim>\<open>gather\<close> with root 0 and no
  receive buffer skips the root-only tests and then evaluates \<^verbatim>\<open>recv->datatype()\<close> for
  the argument list of \<^verbatim>\<open>MPI_Gather\<close>, which is undefined on the empty optional; the
  only library call made before that is \<^verbatim>\<open>MPI_Comm_rank\<close>.
\<close>

theorem gather_off_root_reads_absent_recv:
  "CommImpl_gather rank1_platform MPI_COMM_WORLD 0
       \<lparr> data_m = Addr 16, count_m = 1, datatype_m = MPI_INT32_T \<rparr> None [] =
     (Stopped UndefinedBehaviour, [MPI_Comm_rank MPI_COMM_WORLD])"
  using gather_without_recv_off_root
          [of rank1_platform MPI_COMM_WORLD 1 0
              "\<lparr> data_m = Addr 16, count_m = 1, datatype_m = MPI_INT32_T \<rparr>" "[]"]
  by (simp add: rank1_platform_def quiet_platform_def MPI_SUCCESS_def)

subsection \<open>Owning wrappers\<close>

lemma UniqueHandle_reset_null:
  "UniqueHandle_reset T (UniqueHandle (null T)) w =
     (if is_system_handle T (null T) then Stopped AssertFailed else Returned (),
      UniqueHandle (null T), w)"
  by (simp add: UniqueHandle_reset_def UniqueHandle_operator_bool_def UniqueHandle_is_null_def)

lemma UniqueHandle_destructor_null:
  "UniqueHandle_destructor T (UniqueHandle (null T)) w =
     (if is_system_handle T (null T) then Stopped AssertFailed else Returned (),
      UniqueHandle (null T), w)"
  by (simp add: UniqueHandle_destructor_def UniqueHandle_reset_null)

lemma RequestHandleTraits_simps [simp]:
  "null (RequestHandleTraits pf) = MPI_REQUEST_NULL"
  "is_system_handle (RequestHandleTraits pf) h = False"
  by (simp_all add: RequestHandleTraits_def)

lemma OpHandleTraits_simps [simp]:
  "null (OpHandleTraits pf) = MPI_OP_NULL"
  "is_system_handle (OpHandleTraits pf) MPI_OP_NULL = False"
  by (simp_all add: OpHandleTraits_def OpHandleTraits_is_system_handle_def)

lemma UniqueRequest_check_null_pending:
  "h \<noteq> MPI_REQUEST_NULL \<Longrightarrow>
   UniqueRequest_check_null pf (UniqueHandle h) w =
     (Stopped (Exited EXIT_FAILURE),
      w @ [Print cout [Str ''Requests must be completed before they're dropped!'']])"
  by (simp add: UniqueRequest_check_null_def UniqueHandle_is_null_def stop_with_apply)

lemma UniqueRequest_check_null_done:
  "UniqueRequest_check_null pf (UniqueHandle MPI_REQUEST_NULL) w = (Returned (), w)"
  by (simp add: UniqueRequest_check_null_def UniqueHandle_is_null_def return_apply)

text \<open>
  C3. A \<^verbatim>\<open>UniqueRequest\<close> whose handle is not null ends the process with
  \<^verbatim>\<open>EXIT_FAILURE\<close>, after printing the diagnostic, both when its destructor runs and
  when another request is move-assigned onto it; the handle and the other request are
  left as they were and no library call is made. The destructor of a
  \<^verbatim>\<open>UniqueRequest\<close> whose handle is null returns with the trace unchanged, so without a
  call of \<^verbatim>\<open>MPI_Request_free\<close>.
\<close>

theorem UniqueRequest_must_be_completed:
  "(h \<noteq> MPI_REQUEST_NULL \<longrightarrow>
      UniqueRequest_destructor pf (UniqueHandle h) w =
        (Stopped (Exited EXIT_FAILURE), UniqueHandle h,
         w @ [Print cout [Str ''Requests must be completed before they're dropped!'']]) \<and>
      UniqueRequest_move_assign pf (UniqueHandle h) other w =
        (Stopped (Exited EXIT_FAILURE), UniqueHandle h, other,
         w @ [Print cout [Str ''Requests must be completed before they're dropped!'']])) \<and>
   UniqueRequest_destructor pf (UniqueHandle MPI_REQUEST_NULL) w =
     (Returned (), UniqueHandle MPI_REQUEST_NULL, w)"
proof (intro conjI impI)
  assume "h \<noteq> MPI_REQUEST_NULL"
  note stop = UniqueRequest_check_null_pending [OF this]
  show "UniqueRequest_destructor pf (UniqueHandle h) w =
        (Stopped (Exited EXIT_FAILURE), UniqueHandle h,
         w @ [Print cout [Str ''Requests must be completed before they're dropped!'']])"
    by (simp add: UniqueRequest_destructor_def stop)
  show "UniqueRequest_move_assign pf (UniqueHandle h) other w =
        (Stopped (Exited EXIT_FAILURE), UniqueHandle h, other,
         w @ [Print cout [Str ''Requests must be completed before they're dropped!'']])"
    by (simp add: UniqueRequest_move_assign_def stop)
next
  have "UniqueHandle_destructor (RequestHandleTraits pf) (UniqueHandle MPI_REQUEST_NULL) w =
          (Returned (), UniqueHandle MPI_REQUEST_NULL, w)"
    using UniqueHandle_destructor_null [of "RequestHandleTraits pf" w] by simp
  then show "UniqueRequest_destructor pf (UniqueHandle MPI_REQUEST_NULL) w =
     (Returned (), UniqueHandle MPI_REQUEST_NULL, w)"
    by (simp add: UniqueRequest_destructor_def UniqueRequest_check_null_done)
qed

theorem UniqueRequest_must_be_completed_witness:
  "MPI_Request_id 7 \<noteq> MPI_REQUEST_NULL \<and>
   UniqueRequest_destructor quiet_platform (UniqueHandle (MPI_Request_id 7)) [] =
     (Stopped (Exited 1), UniqueHandle (MPI_Request_id 7),
      [Print cout [Str ''Requests must be completed before they're dropped!'']]) \<and>
   UniqueRequest_move_assign quiet_platform (UniqueHandle (MPI_Request_id 7))
       (UniqueHandle (MPI_Request_id 8)) [] =
     (Stopped (Exited 1), UniqueHandle (MPI_Request_id 7), UniqueHandle (MPI_Request_id 8),
      [Print cout [Str ''Requests must be completed before they're dropped!'']]) \<and>
   UniqueRequest_destructor quiet_platform (UniqueHandle MPI_REQUEST_NULL) [] =
     (Returned (), UniqueHandle MPI_REQUEST_NULL, [])"
  using UniqueRequest_must_be_completed
          [of "MPI_Request_id 7" quiet_platform "[]" "UniqueHandle (MPI_Request_id 8)"]
  by (simp add: EXIT_FAILURE_def)

subsection \<open>Multiple completions\<close>

text \<open>
  C4. \<^verbatim>\<open>wait_all\<close> with fewer statuses than requests, and \<^verbatim>\<open>wait_some\<close> with fewer
  indices than requests or with a statuses span that is present and shorter than the
  requests, throw an exception that a handler for \<^verbatim>\<open>std::logic_error\<close> catches, with
  the requests, the buffers and the trace unchanged: the library has not been called.
  The exception is a \<^verbatim>\<open>std::logic_error\<close> itself unless there are more than
  \<^verbatim>\<open>INT_MAX\<close> requests, when the earlier size test throws its subclass
  \<^verbatim>\<open>std::out_of_range\<close>.
\<close>

theorem batch_wait_rejects_short_buffers:
  "(length statuses < length requests \<longrightarrow>
      (\<exists>e. wait_all pf requests statuses w = (Stopped (Thrown e), requests, statuses, w) \<and>
           is_std_logic_error e \<and>
           (int (length requests) \<le> INT_MAX \<longrightarrow> (\<exists>msg. e = std_logic_error msg)))) \<and>
   (length indices < length requests \<or>
    (\<exists>st. opt_statuses = Some st \<and> length st < length requests) \<longrightarrow>
      (\<exists>e. wait_some pf requests indices opt_statuses w =
             (Stopped (Thrown e), requests, indices, opt_statuses, w) \<and>
           is_std_logic_error e \<and>
           (int (length requests) \<le> INT_MAX \<longrightarrow> (\<exists>msg. e = std_logic_error msg))))"
proof (intro conjI impI)
  assume "length statuses < length requests"
  then show "\<exists>e. wait_all pf requests statuses w = (Stopped (Thrown e), requests, statuses, w) \<and>
           is_std_logic_error e \<and>
           (int (length requests) \<le> INT_MAX \<longrightarrow> (\<exists>msg. e = std_logic_error msg))"
    by (cases "int (length requests) > INT_MAX") (simp_all add: wait_all_def)
next
  assume short: "length indices < length requests \<or>
    (\<exists>st. opt_statuses = Some st \<and> length st < length requests)"
  show "\<exists>e. wait_some pf requests indices opt_statuses w =
             (Stopped (Thrown e), requests, indices, opt_statuses, w) \<and>
           is_std_logic_error e \<and>
           (int (length requests) \<le> INT_MAX \<longrightarrow> (\<exists>msg. e = std_logic_error msg))"
  proof (cases "int (length requests) > INT_MAX")
    case True
    then show ?thesis by (simp add: wait_some_def)
  next
    case fits: False
    show ?thesis
    proof (cases "length indices < length requests")
      case True
      with fits show ?thesis by (simp add: wait_some_def)
    next
      case False
      with short obtain st where "opt_statuses = Some st" "length st < length requests"
        by blast
      with fits False show ?thesis by (simp add: wait_some_def)
    qed
  qed
qed

theorem batch_wait_rejects_short_buffers_witness:
  "length [] < length [MPI_Request_id 1, MPI_Request_id 2] \<and>
   wait_all quiet_platform [MPI_Request_id 1, MPI_Request_id 2] [] [] =
     (Stopped (Thrown (std_logic_error
        ''statuses array must be large enough to hold a status for each request'')),
      [MPI_Request_id 1, MPI_Request_id 2], [], []) \<and>
   length [5] < length [MPI_Request_id 1, MPI_Request_id 2] \<and>
   wait_some quiet_platform [MPI_Request_id 1, MPI_Request_id 2] [5] None [] =
     (Stopped (Thrown (std_logic_error
        ''indices array must be large enough to hold an index for each request'')),
      [MPI_Request_id 1, MPI_Request_id 2], [5], None, [])"
  using batch_wait_rejects_short_buffers
          [of "[]" "[MPI_Request_id 1, MPI_Request_id 2]" quiet_platform "[]" "[5]" None]
  by (simp add: wait_all_def wait_some_def INT_MAX_def)

lemma vector_resize_grow: "vector_resize v (length v + n) = v @ replicate n 0"
  by (simp add: vector_resize_def)

lemma vector_resize_cut:
  "n \<le> length ys \<Longrightarrow> vector_resize (xs @ ys) (length xs + n) = xs @ take n ys"
  by (simp add: vector_resize_def)

lemma wait_some_completed:
  assumes "int (length requests) \<le> INT_MAX"
    and "length requests \<le> length indices"
    and "on_Waitsome pf requests indices None =
           (MPI_SUCCESS, num_completed, requests', indices', statuses')"
    and "num_completed \<noteq> MPI_UNDEFINED pf"
  shows "wait_some pf requests indices None w =
           (Returned num_completed, requests', indices', statuses',
            w @ [MPI_Waitsome (int (length requests)) requests])"
  using assms by (simp add: wait_some_def return_apply)

text \<open>
  C5. \<^verbatim>\<open>wait_some_into\<close> appends. When the library's \<^verbatim>\<open>MPI_Waitsome\<close>, called on the
  requests and the fresh slots, succeeds and reports \<open>num_completed\<close> completions (a
  count between 0 and the number of slots it wrote, other than \<^verbatim>\<open>MPI_UNDEFINED\<close>), the
  vector afterwards is its old content followed by the first \<open>num_completed\<close> indices
  the library wrote, and its length is the old length plus \<open>num_completed\<close>.
\<close>

theorem wait_some_into_appends:
  assumes "int (length requests) \<le> INT_MAX"
    and "on_Waitsome pf requests (replicate (length requests) 0) None =
           (MPI_SUCCESS, num_completed, requests', written, statuses')"
    and "num_completed \<noteq> MPI_UNDEFINED pf"
    and "0 \<le> num_completed"
    and "nat num_completed \<le> length written"
    and "int (length indices) + num_completed < 2 ^ (8 * sizeof_size_t pf)"
  shows "wait_some_into pf requests indices w =
           (Returned (), requests', indices @ take (nat num_completed) written,
            w @ [MPI_Waitsome (int (length requests)) requests]) \<and>
         length (indices @ take (nat num_completed) written) =
           length indices + nat num_completed"
proof -
  have call: "wait_some pf requests (replicate (length requests) 0) None w =
           (Returned num_completed, requests', written, statuses',
            w @ [MPI_Waitsome (int (length requests)) requests])"
    using assms(1-3) by (intro wait_some_completed) simp_all
  have size: "nat ((int (length indices) + num_completed) mod 2 ^ (8 * sizeof_size_t pf)) =
          length indices + nat num_completed"
    using assms(4,6) by (simp add: nat_add_distrib)
  have "wait_some_into pf requests indices w =
          (Returned (), requests',
           vector_resize (indices @ written) (length indices + nat num_completed),
           w @ [MPI_Waitsome (int (length requests)) requests])"
    by (simp add: wait_some_into_def Let_def vector_resize_grow call size)
  with assms(5) show ?thesis
    by (simp add: vector_resize_cut)
qed

theorem wait_some_into_appends_witness:
  "wait_some_into one_completes_platform [MPI_Request_id 1, MPI_Request_id 2] [7, 8] [] =
     (Returned (), [MPI_Request_id 1, MPI_REQUEST_NULL], [7, 8, 1],
      [MPI_Waitsome 2 [MPI_Request_id 1, MPI_Request_id 2]])"
  using wait_some_into_appends
          [of "[MPI_Request_id 1, MPI_Request_id 2]" one_completes_platform 1
              "[MPI_Request_id 1, MPI_REQUEST_NULL]" "[1, 0]" None "[7, 8]" "[]"]
  by (simp add: one_completes_platform_def quiet_platform_def INT_MAX_def MPI_SUCCESS_def)

subsection \<open>Operators\<close>

text \<open>
  C6. Destroying an \<^verbatim>\<open>Op\<close> whose traits are not user-defined returns with the trace
  unchanged, whatever identifier it holds: the destructor's own body has emptied the
  wrapper before the base class's teardown runs, so \<^verbatim>\<open>MPI_Op_free\<close> is not called.
  None of the four traits classes of the header is user-defined.
\<close>

theorem Op_destructor_keeps_system_operator:
  "(\<not> is_user_defined OT \<longrightarrow>
      Op_destructor OT pf (UniqueHandle h) w = (Returned (), UniqueHandle MPI_OP_NULL, w)) \<and>
   \<not> is_user_defined comparison_op_traits \<and> \<not> is_user_defined accumulate_op_traits \<and>
   \<not> is_user_defined logical_op_traits \<and> \<not> is_user_defined bitwise_op_traits"
proof -
  have "UniqueHandle_destructor (OpHandleTraits pf) (UniqueHandle MPI_OP_NULL) w =
          (Returned (), UniqueHandle MPI_OP_NULL, w)"
    using UniqueHandle_destructor_null [of "OpHandleTraits pf" w] by simp
  then have "\<not> is_user_defined OT \<longrightarrow>
      Op_destructor OT pf (UniqueHandle h) w = (Returned (), UniqueHandle MPI_OP_NULL, w)"
    by (simp add: Op_destructor_def UniqueHandle_into_raw_def)
  then show ?thesis
    by (simp add: comparison_op_traits_def accumulate_op_traits_def
          logical_op_traits_def bitwise_op_traits_def)
qed

theorem Op_destructor_keeps_system_operator_witness:
  "\<not> is_user_defined accumulate_op_traits \<and>
   mpi_sum = Some (UniqueHandle MPI_SUM) \<and>
   Op_destructor accumulate_op_traits quiet_platform (UniqueHandle MPI_SUM) [] =
     (Returned (), UniqueHandle MPI_OP_NULL, [])"
  using Op_destructor_keeps_system_operator [of accumulate_op_traits quiet_platform MPI_SUM "[]"]
  by (simp add: mpi_sum_def from_system_handle_def)

text \<open>
  C7. For an owning wrapper holding \<open>h\<close>, \<^verbatim>\<open>into_raw\<close> returns \<open>h\<close> and leaves the wrapper
  null (\<^verbatim>\<open>is_null\<close> true, boolean conversion false). It takes no part of the state the
  destroy procedure acts on, and the destructor that follows leaves that state as it
  is, for every traits class and so for every destroy procedure: \<open>h\<close> is not destroyed.
\<close>

theorem into_raw_releases_ownership:
  "fst (UniqueHandle_into_raw T (UniqueHandle h)) = h \<and>
   UniqueHandle_is_null T (snd (UniqueHandle_into_raw T (UniqueHandle h))) \<and>
   \<not> UniqueHandle_operator_bool T (snd (UniqueHandle_into_raw T (UniqueHandle h))) \<and>
   UniqueHandle_destructor T (snd (UniqueHandle_into_raw T (UniqueHandle h))) w =
     (if is_system_handle T (null T) then Stopped AssertFailed else Returned (),
      UniqueHandle (null T), w)"
  by (simp add: UniqueHandle_into_raw_def UniqueHandle_is_null_def
        UniqueHandle_operator_bool_def UniqueHandle_destructor_null)

text \<open>
  C8. For every value type with a datatype-traits specialisation, a bitwise operator is
  applicable exactly when the type is classified as integer, and a logical operator
  exactly when it is classified as integer or logical. \<^verbatim>\<open>bool\<close> is logical and not
  integer: logical operators accept it, bitwise operators do not.
\<close>

theorem applicability_follows_classification:
  "(is_datatype_v sz T \<longrightarrow>
      Op_is_applicable bitwise_op_traits sz T = Some (is_c_integer (DatatypeTraits sz T)) \<and>
      Op_is_applicable logical_op_traits sz T =
        Some (is_c_integer (DatatypeTraits sz T) \<or> is_logical (DatatypeTraits sz T))) \<and>
   is_datatype_v sz T_bool \<and>
   is_logical (DatatypeTraits sz T_bool) \<and> \<not> is_c_integer (DatatypeTraits sz T_bool) \<and>
   Op_is_applicable logical_op_traits sz T_bool = Some True \<and>
   Op_is_applicable bitwise_op_traits sz T_bool = Some False"
  by (simp add: Op_is_applicable_def bitwise_op_traits_def logical_op_traits_def
        is_datatype_v_def specialisation_def)

theorem applicability_follows_classification_witness:
  "is_datatype_v 8 T_int32_t \<and>
   Op_is_applicable bitwise_op_traits 8 T_int32_t = Some True \<and>
   Op_is_applicable logical_op_traits 8 T_int32_t = Some True \<and>
   Op_is_applicable bitwise_op_traits 8 T_double = Some False \<and>
   Op_is_applicable logical_op_traits 8 T_double = Some False \<and>
   Op_is_applicable logical_op_traits 8 T_bool = Some True \<and>
   Op_is_applicable bitwise_op_traits 8 T_bool = Some False"
  using applicability_follows_classification [of 8 T_int32_t]
        applicability_follows_classification [of 8 T_double]
  by (simp add: is_datatype_v_def specialisation_def)

subsection \<open>Dereferencing\<close>

text \<open>
  C9. \<^verbatim>\<open>deref\<close> on an owner yields a reference wrapper with the owner's raw identifier
  and leaves the owner as it was; a second \<^verbatim>\<open>deref\<close> yields the same reference. This
  holds for \<^verbatim>\<open>UniqueComm\<close> and \<^verbatim>\<open>UniqueRequest\<close>, and for \<^verbatim>\<open>Comm\<close> dereferencing to
  itself.
\<close>

theorem deref_aliases_without_taking:
  "Handle_get_raw (fst (UniqueComm_deref u)) = UniqueHandle_get_raw u \<and>
   snd (UniqueComm_deref u) = u \<and>
   fst (UniqueComm_deref (snd (UniqueComm_deref u))) = fst (UniqueComm_deref u) \<and>
   Handle_get_raw (fst (UniqueRequest_deref q)) = UniqueHandle_get_raw q \<and>
   snd (UniqueRequest_deref q) = q \<and>
   fst (UniqueRequest_deref (snd (UniqueRequest_deref q))) = fst (UniqueRequest_deref q) \<and>
   Handle_get_raw (fst (Comm_deref r)) = Handle_get_raw r \<and>
   snd (Comm_deref r) = r"
  by (simp add: UniqueComm_deref_def UniqueRequest_deref_def Comm_deref_def deref_def
        Comm_from_handle_def Request_from_handle_def)

subsection \<open>The result gate, as a whole\<close>

text \<open>
  Against "every code other than success is thrown as an \<^verbatim>\<open>Exception\<close>": on a
  library whose error-string lookup fails, \<^verbatim>\<open>check_result(5)\<close> ends in
  \<^verbatim>\<open>MPI_Abort(MPI_COMM_WORLD, EXIT_FAILURE)\<close> and throws nothing.
\<close>

theorem check_result_lookup_failure_counterexample:
  "5 \<noteq> MPI_SUCCESS \<and>
   check_result lookup_fails_platform 5 [] =
     (Stopped (Aborted MPI_COMM_WORLD EXIT_FAILURE),
      [MPI_Error_string 5, MPI_Abort MPI_COMM_WORLD EXIT_FAILURE]) \<and>
   \<not> throws_Exception_with 5 (fst (check_result lookup_fails_platform 5 []))"
  by (simp add: check_result_def Exception_ctor_def lookup_fails_platform_def
        quiet_platform_def MPI_SUCCESS_def stop_with_apply)

text \<open>
  C10, amended. \<^verbatim>\<open>check_result(code)\<close> returns normally if and only if the code is the
  success value. For any other code the \<^verbatim>\<open>Exception\<close> is constructed, which asks the
  library for the text of the code: when that lookup succeeds, the exception is thrown,
  carrying the code and the text fetched; when the lookup fails, the constructor aborts
  \<^verbatim>\<open>MPI_COMM_WORLD\<close> with \<^verbatim>\<open>EXIT_FAILURE\<close> and nothing is thrown.
\<close>

theorem check_result_gate:
  "(fst (check_result pf code w) = Returned () \<longleftrightarrow> code = MPI_SUCCESS) \<and>
   (code \<noteq> MPI_SUCCESS \<and> fst (on_Error_string pf code) = MPI_SUCCESS \<longrightarrow>
      check_result pf code w =
        (Stopped (Thrown (mpi_Exception
           (Exception code (snd (on_Error_string pf code) @ [CHR 0x00])))),
         w @ [MPI_Error_string code])) \<and>
   (code \<noteq> MPI_SUCCESS \<and> fst (on_Error_string pf code) \<noteq> MPI_SUCCESS \<longrightarrow>
      check_result pf code w =
        (Stopped (Aborted MPI_COMM_WORLD EXIT_FAILURE),
         w @ [MPI_Error_string code, MPI_Abort MPI_COMM_WORLD EXIT_FAILURE]))"
proof (cases "code = MPI_SUCCESS")
  case True
  then show ?thesis by (simp add: return_apply)
next
  case False
  show ?thesis
  proof (cases "fst (on_Error_string pf code) = MPI_SUCCESS")
    case True
    then have "on_Error_string pf code = (MPI_SUCCESS, snd (on_Error_string pf code))"
      by (metis prod.collapse)
    from Exception_ctor_found [OF this] False True show ?thesis
      by (simp add: check_result_def bind_def stop_with_apply)
  next
    case lookup: False
    from Exception_ctor_lookup_failed [OF this] False lookup show ?thesis
      by (simp add: check_result_def bind_def)
  qed
qed

theorem check_result_gate_witness:
  "check_result quiet_platform 0 [] = (Returned (), []) \<and>
   check_result quiet_platform 5 [] =
     (Stopped (Thrown (mpi_Exception (Exception 5 [CHR 0x00]))), [MPI_Error_string 5]) \<and>
   check_result lookup_fails_platform 5 [] =
     (Stopped (Aborted MPI_COMM_WORLD EXIT_FAILURE),
      [MPI_Error_string 5, MPI_Abort MPI_COMM_WORLD EXIT_FAILURE])"
  using check_result_gate [of quiet_platform 0 "[]"]
        check_result_gate [of quiet_platform 5 "[]"]
        check_result_gate [of lookup_fails_platform 5 "[]"]
  by (simp add: lookup_fails_platform_def quiet_platform_def MPI_SUCCESS_def prod_eq_iff
        check_result_def return_apply)

end
